theory Spec2Isabelle
  imports Main "HOL-Library.Word" "HOL-Library.AList" "HOL-Library.Sublist"
begin

section \<open>The gRPC server probe of the Go auto-instrumentation\<close>

text \<open>
  A shallow embedding of
  \<^verbatim>\<open>internal/pkg/instrumentation/bpf/google.golang.org/grpc/server/probe.go\<close>:
  the version thresholds, the list of uprobes with their package constraints, the two
  constant resolvers \<^verbatim>\<open>framePosConst\<close> and \<^verbatim>\<open>serverAddrConst\<close>, and the event processor
  \<^verbatim>\<open>processFn\<close>. The package-level variable \<^verbatim>\<open>serverAddr\<close> is threaded through as
  explicit state.
\<close>

type_synonym byte = "8 word"

subsection \<open>Functions of other packages that the probe calls\<close>

text \<open>
  Three functions the probe calls are taken as parameters, since nothing proved below
  depends on what they compute: the ordering of two prerelease strings inside the
  semantic-version library, the conversion of a boot offset into a timestamp
  (\<^verbatim>\<open>kernel.BootOffsetToTimestamp\<close>) and the textual form of an IP address
  (\<^verbatim>\<open>net.IP.String\<close>).
\<close>

record externs =
  comparePrerelease :: "string \<Rightarrow> string \<Rightarrow> int"
  BootOffsetToTimestamp :: "64 word \<Rightarrow> 64 word"
  IP_String :: "byte list \<Rightarrow> string"

subsection \<open>Semantic versions and constraints (github.com/Masterminds/semver/v3)\<close>

text \<open>
  A version holds three unsigned 64-bit numbers, a prerelease string and a metadata
  string; \<^verbatim>\<open>semver.New(major, minor, patch, pre, metadata)\<close> builds one.
\<close>

record Version =
  major :: "64 word"
  minor :: "64 word"
  patch :: "64 word"
  pre :: string
  metadata :: string

definition semver_New :: "64 word \<Rightarrow> 64 word \<Rightarrow> 64 word \<Rightarrow> string \<Rightarrow> string \<Rightarrow> Version" where
  "semver_New ma mi pa pr md = \<lparr>major = ma, minor = mi, patch = pa, pre = pr, metadata = md\<rparr>"

definition compareSegment :: "64 word \<Rightarrow> 64 word \<Rightarrow> int" where
  "compareSegment v w = (if v < w then - 1 else if w < v then 1 else 0)"

text \<open>
  \<^verbatim>\<open>Version.Compare\<close>: major, minor and patch decide first; with these equal a release is
  greater than any of its prereleases, and two prereleases are ordered by their prerelease
  strings. The metadata is never looked at.
\<close>

definition Compare :: "externs \<Rightarrow> Version \<Rightarrow> Version \<Rightarrow> int" where
  "Compare x v w =
     (if compareSegment (major v) (major w) \<noteq> 0 then compareSegment (major v) (major w)
      else if compareSegment (minor v) (minor w) \<noteq> 0 then compareSegment (minor v) (minor w)
      else if compareSegment (patch v) (patch w) \<noteq> 0 then compareSegment (patch v) (patch w)
      else if pre v = [] \<and> pre w = [] then 0
      else if pre v = [] then 1
      else if pre w = [] then - 1
      else comparePrerelease x (pre v) (pre w))"

definition GreaterThanEqual :: "externs \<Rightarrow> Version \<Rightarrow> Version \<Rightarrow> bool" where
  "GreaterThanEqual x v w = (0 \<le> Compare x v w)"

text \<open>
  A parsed constraint is an operator and a version. The probe writes its constraints as
  the strings \<^verbatim>\<open>"< 1.69.0"\<close>, \<^verbatim>\<open>">= 1.69.0"\<close> and \<^verbatim>\<open>"> 1.40.0, < 1.69.0"\<close>: only the
  operators \<^verbatim>\<open><\<close>, \<^verbatim>\<open>>\<close> and \<^verbatim>\<open>>=\<close> occur, always with a full version, and a comma joins
  constraints that must all hold. A parsed constraint set is a list of alternatives, each
  a list of constraints to be met together.
\<close>

datatype cop = OpLess | OpGreater | OpGreaterEqual

datatype constraint = Constraint cop Version

type_synonym Constraints = "constraint list list"

text \<open>
  Each operator first refuses a prerelease version when the constraint's own version is not
  a prerelease, and compares otherwise.
\<close>

fun check :: "externs \<Rightarrow> constraint \<Rightarrow> Version \<Rightarrow> bool" where
  "check x (Constraint OpLess con) v =
     (if pre v \<noteq> [] \<and> pre con = [] then False else Compare x v con < 0)"
| "check x (Constraint OpGreater con) v =
     (if pre v \<noteq> [] \<and> pre con = [] then False else Compare x v con = 1)"
| "check x (Constraint OpGreaterEqual con) v =
     (if pre v \<noteq> [] \<and> pre con = [] then False else 0 \<le> Compare x v con)"

definition Check :: "externs \<Rightarrow> Constraints \<Rightarrow> Version \<Rightarrow> bool" where
  "Check x cs v = list_ex (\<lambda>alt. list_all (\<lambda>c. check x c v) alt) cs"

subsection \<open>The probe's thresholds\<close>

definition pkg :: string where
  "pkg = ''google.golang.org/grpc''"

definition writeStatusMinVersion :: Version where
  "writeStatusMinVersion = semver_New 1 40 0 [] []"

definition serverStreamVersion :: Version where
  "serverStreamVersion = semver_New 1 69 0 [] []"

definition paramChangeVer :: Version where
  "paramChangeVer = semver_New 1 60 0 [] []"

definition serverAddrMinVersion :: Version where
  "serverAddrMinVersion = semver_New 1 60 0 [] []"

subsection \<open>Events and spans\<close>

record EBPFSpanContext =
  TraceID :: "byte list"
  SpanID :: "byte list"

record BaseSpanProperties =
  StartTime :: "64 word"
  EndTime :: "64 word"
  SpanContext :: EBPFSpanContext
  ParentSpanContext :: EBPFSpanContext

record NetAddr =
  IP :: "byte list"
  Port :: "32 word"

text \<open>
  The event embeds \<^verbatim>\<open>context.BaseSpanProperties\<close>. \<^verbatim>\<open>Method\<close> is a \<^verbatim>\<open>[100]byte\<close>,
  \<^verbatim>\<open>StatusCode\<close> an \<^verbatim>\<open>int32\<close>, \<^verbatim>\<open>HasStatus\<close> a \<^verbatim>\<open>uint8\<close>.
\<close>

record event = BaseSpanProperties +
  Method :: "byte list"
  StatusCode :: "32 word"
  LocalAddr :: NetAddr
  HasStatus :: byte

text \<open>An event as the kernel side writes it: the arrays have their declared lengths.\<close>

definition wf_event :: "event \<Rightarrow> bool" where
  "wf_event e =
     (length (Method e) = 100 \<and> length (IP (LocalAddr e)) = 16
      \<and> length (TraceID (SpanContext e)) = 16 \<and> length (SpanID (SpanContext e)) = 8
      \<and> length (TraceID (ParentSpanContext e)) = 16
      \<and> length (SpanID (ParentSpanContext e)) = 8)"

datatype SpanKind = SpanKindUnspecified | SpanKindInternal | SpanKindServer
  | SpanKindClient | SpanKindProducer | SpanKindConsumer

datatype StatusCode = StatusCodeUnset | StatusCodeOk | StatusCodeError

datatype attr_value = StringValue string | Int64Value int

type_synonym KeyValue = "string \<times> attr_value"

text \<open>
  The span as \<^verbatim>\<open>processFn\<close> leaves it. \<^verbatim>\<open>ParentSpanID\<close> is \<open>None\<close> while
  \<^verbatim>\<open>SetParentSpanID\<close> has not been called: the span then has no parent and is the root of
  its trace. \<^verbatim>\<open>Attributes\<close> is the span's attribute map in insertion order.
\<close>

record Span =
  Name :: string
  Kind :: SpanKind
  StartTimestamp :: "64 word"
  EndTimestamp :: "64 word"
  span_TraceID :: "byte list"
  span_SpanID :: "byte list"
  Flags :: "32 word"
  ParentSpanID :: "byte list option"
  Status :: StatusCode
  Attributes :: "KeyValue list"

text \<open>What \<^verbatim>\<open>AppendEmpty\<close> adds to a span slice.\<close>

definition emptySpan :: Span where
  "emptySpan =
     \<lparr>Name = [], Kind = SpanKindUnspecified, StartTimestamp = 0, EndTimestamp = 0,
      span_TraceID = replicate 16 0, span_SpanID = replicate 8 0, Flags = 0,
      ParentSpanID = None, Status = StatusCodeUnset, Attributes = []\<rparr>"

subsection \<open>Decoding the method name\<close>

text \<open>
  \<^verbatim>\<open>bytes.IndexByte(s, c)\<close>: the index of the first \<^verbatim>\<open>c\<close> in \<^verbatim>\<open>s\<close>, or \<open>-1\<close>.
\<close>

fun IndexByte :: "byte list \<Rightarrow> byte \<Rightarrow> int" where
  "IndexByte [] c = - 1"
| "IndexByte (b # bs) c =
     (if b = c then 0
      else (let i = IndexByte bs c in if i = - 1 then - 1 else i + 1))"

text \<open>The conversion \<^verbatim>\<open>string(s)\<close> of a byte slice: the same bytes, as characters.\<close>

definition string_of_bytes :: "byte list \<Rightarrow> string" where
  "string_of_bytes bs = map (\<lambda>b. char_of (unat b)) bs"

text \<open>
  \<^verbatim>\<open>unix.ByteSliceToString\<close>: cut the slice at the first null byte, if there is one, and
  convert.
\<close>

definition ByteSliceToString :: "byte list \<Rightarrow> string" where
  "ByteSliceToString s =
     (let i = IndexByte s 0
      in if i \<noteq> - 1 then string_of_bytes (take (nat i) s) else string_of_bytes s)"

subsection \<open>The event processor\<close>

text \<open>\<^verbatim>\<open>trace.SpanID.IsValid\<close>: the identifier is not the all-zero one.\<close>

definition nilSpanID :: "byte list" where
  "nilSpanID = replicate 8 0"

definition IsValid :: "byte list \<Rightarrow> bool" where
  "IsValid s = (s \<noteq> nilSpanID)"

text \<open>
  The numbers of the gRPC codes that \<^verbatim>\<open>processFn\<close> names
  (\<^verbatim>\<open>google.golang.org/grpc/codes\<close>).
\<close>

definition codes_Unknown :: "32 word" where "codes_Unknown = 2"
definition codes_DeadlineExceeded :: "32 word" where "codes_DeadlineExceeded = 4"
definition codes_Unimplemented :: "32 word" where "codes_Unimplemented = 12"
definition codes_Internal :: "32 word" where "codes_Internal = 13"
definition codes_Unavailable :: "32 word" where "codes_Unavailable = 14"
definition codes_DataLoss :: "32 word" where "codes_DataLoss = 15"

text \<open>The attribute keys of \<^verbatim>\<open>semconv\<close> v1.30.0 that the probe uses.\<close>

definition RPCSystemKey :: string where "RPCSystemKey = ''rpc.system''"
definition RPCServiceKey :: string where "RPCServiceKey = ''rpc.service''"
definition RPCGRPCStatusCodeKey :: string where "RPCGRPCStatusCodeKey = ''rpc.grpc.status_code''"
definition ServerAddressKey :: string where "ServerAddressKey = ''server.address''"
definition ServerPortKey :: string where "ServerPortKey = ''server.port''"

text \<open>
  \<^verbatim>\<open>pdataconv.Attributes(dest, attrs...)\<close> puts every key-value pair into the map \<^verbatim>\<open>dest\<close>
  in turn; putting under a key that is present replaces its value in place, a new key is
  appended.
\<close>

definition pdataconv_Attributes :: "KeyValue list \<Rightarrow> KeyValue list \<Rightarrow> KeyValue list" where
  "pdataconv_Attributes dest attrs = fold (\<lambda>kv m. AList.update (fst kv) (snd kv) m) attrs dest"

text \<open>The package-level variables of the probe: \<^verbatim>\<open>serverAddr\<close>, initially false.\<close>

record globals =
  serverAddr :: bool

definition init_globals :: globals where
  "init_globals = \<lparr>serverAddr = False\<rparr>"

text \<open>The attribute slice \<^verbatim>\<open>attrs\<close> that \<^verbatim>\<open>processFn\<close> builds, in its three steps.\<close>

definition processFn_attrs :: "externs \<Rightarrow> globals \<Rightarrow> event \<Rightarrow> KeyValue list" where
  "processFn_attrs x g e =
     (let method = ByteSliceToString (Method e);
          attrs0 = [(RPCSystemKey, StringValue ''grpc''),
                    (RPCServiceKey, StringValue method),
                    (RPCGRPCStatusCodeKey, Int64Value (sint (StatusCode e)))];
          attrs1 = (if HasStatus e \<noteq> 0
                    then attrs0 @ [(RPCGRPCStatusCodeKey, Int64Value (sint (StatusCode e)))]
                    else attrs0);
          attrs2 = (if serverAddr g
                    then attrs1 @ [(ServerAddressKey, StringValue (IP_String x (IP (LocalAddr e)))),
                                   (ServerPortKey, Int64Value (sint (Port (LocalAddr e))))]
                    else attrs1)
      in attrs2)"

text \<open>The status the \<^verbatim>\<open>switch\<close> inside \<^verbatim>\<open>if e.HasStatus != 0\<close> leaves on the span.\<close>

definition processFn_status :: "event \<Rightarrow> StatusCode \<Rightarrow> StatusCode" where
  "processFn_status e st =
     (if HasStatus e \<noteq> 0
      then (if StatusCode e = codes_Unknown \<or> StatusCode e = codes_DeadlineExceeded
               \<or> StatusCode e = codes_Unimplemented \<or> StatusCode e = codes_Internal
               \<or> StatusCode e = codes_Unavailable \<or> StatusCode e = codes_DataLoss
            then StatusCodeError else st)
      else st)"

text \<open>\<^verbatim>\<open>processFn\<close>: one new span in a new span slice, filled from the event.\<close>

definition processFn :: "externs \<Rightarrow> globals \<Rightarrow> event \<Rightarrow> Span list" where
  "processFn x g e =
     (let method = ByteSliceToString (Method e);
          span = emptySpan;
          span = span\<lparr>Name := method\<rparr>;
          span = span\<lparr>Kind := SpanKindServer\<rparr>;
          span = span\<lparr>StartTimestamp := BootOffsetToTimestamp x (StartTime e)\<rparr>;
          span = span\<lparr>EndTimestamp := BootOffsetToTimestamp x (EndTime e)\<rparr>;
          span = span\<lparr>span_TraceID := TraceID (SpanContext e)\<rparr>;
          span = span\<lparr>span_SpanID := SpanID (SpanContext e)\<rparr>;
          span = span\<lparr>Flags := 1\<rparr>;
          span = (if IsValid (SpanID (ParentSpanContext e))
                  then span\<lparr>ParentSpanID := Some (SpanID (ParentSpanContext e))\<rparr>
                  else span);
          span = span\<lparr>Status := processFn_status e (Status span)\<rparr>;
          span = span\<lparr>Attributes := pdataconv_Attributes (Attributes span) (processFn_attrs x g e)\<rparr>
      in [span])"

subsection \<open>The constant resolvers\<close>

datatype error = UnknownModuleVersion string | ConstraintNotMet string

text \<open>\<^verbatim>\<open>inject.WithKeyValue(key, value)\<close>; both resolvers inject a boolean.\<close>

datatype inject_Option = WithKeyValue string bool

text \<open>
  \<^verbatim>\<open>process.Info\<close>: the resolvers read its \<^verbatim>\<open>Modules\<close> map only, from import path to
  detected version.
\<close>

record Info =
  Modules :: "string \<rightharpoonup> Version"

definition framePosConst_InjectOption :: "externs \<Rightarrow> Info \<Rightarrow> error + inject_Option" where
  "framePosConst_InjectOption x info =
     (case Modules info pkg of
        None \<Rightarrow> Inl (UnknownModuleVersion pkg)
      | Some ver \<Rightarrow> Inr (WithKeyValue ''is_new_frame_pos'' (GreaterThanEqual x ver paramChangeVer)))"

text \<open>
  \<^verbatim>\<open>serverAddrConst.InjectOption\<close> writes the package-level \<^verbatim>\<open>serverAddr\<close>: the globals
  go in and come out.
\<close>

definition serverAddrConst_InjectOption ::
  "externs \<Rightarrow> Info \<Rightarrow> globals \<Rightarrow> (error + inject_Option) \<times> globals" where
  "serverAddrConst_InjectOption x info g =
     (case Modules info pkg of
        None \<Rightarrow> (Inl (UnknownModuleVersion pkg), g)
      | Some ver \<Rightarrow>
          (let g' = (if GreaterThanEqual x ver serverAddrMinVersion
                     then g\<lparr>serverAddr := True\<rparr> else g)
           in (Inr (WithKeyValue ''server_addr_supported'' (serverAddr g')), g')))"

subsection \<open>The uprobes and their selection\<close>

text \<open>
  Modelled from the spec: the package \<^verbatim>\<open>probe\<close>, which declares \<^verbatim>\<open>FailureMode\<close>,
  \<^verbatim>\<open>PackageConstraints\<close> and \<^verbatim>\<open>Uprobe\<close>, is not under src/. The spec gives an attachment
  point a symbol name, an entry handler, an optional return handler and zero or more
  triples of library, constraint expression and failure mode, the mode being Ignore (skip
  silently if unmet) or Fail (abort the whole probe). An absent return handler is the empty
  string, as the Go zero value is.
\<close>

datatype FailureMode = FailureModeIgnore | FailureModeFail

record PackageConstraints =
  Package :: string
  Constraints :: Constraints
  FailureMode :: FailureMode

record Uprobe =
  Sym :: string
  EntryProbe :: string
  ReturnProbe :: string
  PackageConstraints :: "PackageConstraints list"

text \<open>The \<^verbatim>\<open>Uprobes\<close> list that \<^verbatim>\<open>New\<close> builds, with each constraint string parsed.\<close>

definition Uprobes :: "Uprobe list" where
  "Uprobes =
     [\<lparr>Sym = ''google.golang.org/grpc.(*Server).handleStream'',
       EntryProbe = ''uprobe_server_handleStream'',
       ReturnProbe = ''uprobe_server_handleStream_Returns'',
       PackageConstraints =
         [\<lparr>Package = ''google.golang.org/grpc'',
           Constraints = [[Constraint OpLess serverStreamVersion]],
           FailureMode = FailureModeIgnore\<rparr>]\<rparr>,
      \<lparr>Sym = ''google.golang.org/grpc.(*Server).handleStream'',
       EntryProbe = ''uprobe_server_handleStream2'',
       ReturnProbe = ''uprobe_server_handleStream2_Returns'',
       PackageConstraints =
         [\<lparr>Package = ''google.golang.org/grpc'',
           Constraints = [[Constraint OpGreaterEqual serverStreamVersion]],
           FailureMode = FailureModeIgnore\<rparr>]\<rparr>,
      \<lparr>Sym = ''google.golang.org/grpc/internal/transport.(*http2Server).operateHeaders'',
       EntryProbe = ''uprobe_http2Server_operateHeader'',
       ReturnProbe = [],
       PackageConstraints = []\<rparr>,
      \<lparr>Sym = ''google.golang.org/grpc/internal/transport.(*http2Server).WriteStatus'',
       EntryProbe = ''uprobe_http2Server_WriteStatus'',
       ReturnProbe = [],
       PackageConstraints =
         [\<lparr>Package = ''google.golang.org/grpc'',
           Constraints = [[Constraint OpGreater writeStatusMinVersion,
                           Constraint OpLess serverStreamVersion]],
           FailureMode = FailureModeIgnore\<rparr>]\<rparr>,
      \<lparr>Sym = ''google.golang.org/grpc/internal/transport.(*http2Server).writeStatus'',
       EntryProbe = ''uprobe_http2Server_WriteStatus2'',
       ReturnProbe = [],
       PackageConstraints =
         [\<lparr>Package = ''google.golang.org/grpc'',
           Constraints = [[Constraint OpGreaterEqual serverStreamVersion]],
           FailureMode = FailureModeIgnore\<rparr>]\<rparr>]"

text \<open>
  Modelled from the spec: the attachment resolver of the package \<^verbatim>\<open>probe\<close> is not under
  src/. By the spec a triple is met when the library's detected version satisfies the
  constraint expression, and is unmet when the library has no detected version; an
  attachment point with no triples applies unconditionally.
\<close>

definition met :: "externs \<Rightarrow> (string \<rightharpoonup> Version) \<Rightarrow> PackageConstraints \<Rightarrow> bool" where
  "met x mods pc =
     (case mods (Package pc) of None \<Rightarrow> False | Some v \<Rightarrow> Check x (Constraints pc) v)"

definition satisfied :: "externs \<Rightarrow> (string \<rightharpoonup> Version) \<Rightarrow> Uprobe \<Rightarrow> bool" where
  "satisfied x mods u = list_all (met x mods) (PackageConstraints u)"

text \<open>
  Modelled from the spec: step 1 of the attachment resolver, not under src/. An attachment
  point with a Fail-mode triple that is unmet aborts the whole probe; one whose unmet
  triples are all Ignore-mode is dropped; the others survive, in their order.
\<close>

definition aborting :: "externs \<Rightarrow> (string \<rightharpoonup> Version) \<Rightarrow> Uprobe \<Rightarrow> bool" where
  "aborting x mods u =
     list_ex (\<lambda>pc. FailureMode pc = FailureModeFail \<and> \<not> met x mods pc) (PackageConstraints u)"

definition selectUprobes ::
  "externs \<Rightarrow> (string \<rightharpoonup> Version) \<Rightarrow> Uprobe list \<Rightarrow> error + Uprobe list" where
  "selectUprobes x mods us =
     (case find (aborting x mods) us of
        Some u \<Rightarrow> Inl (ConstraintNotMet (Sym u))
      | None \<Rightarrow> Inr (filter (satisfied x mods) us))"

text \<open>
  One resolution pass over the two resolvers of the \<^verbatim>\<open>Consts\<close> list that this file
  defines, in the order of the list: \<^verbatim>\<open>serverAddrConst\<close>, then \<^verbatim>\<open>framePosConst\<close>.
\<close>

definition resolveConsts ::
  "externs \<Rightarrow> Info \<Rightarrow> globals \<Rightarrow> (error + inject_Option) list \<times> globals" where
  "resolveConsts x info g =
     (let r = serverAddrConst_InjectOption x info g
      in ([fst r, framePosConst_InjectOption x info], snd r))"

subsection \<open>Concrete inputs\<close>

definition info_of :: "Version \<Rightarrow> Info" where
  "info_of v = \<lparr>Modules = Map.empty(pkg \<mapsto> v)\<rparr>"

definition sample_externs :: externs where
  "sample_externs =
     \<lparr>comparePrerelease = (\<lambda>a b. 0), BootOffsetToTimestamp = (\<lambda>t. t),
      IP_String = (\<lambda>bs. [])\<rparr>"

text \<open>
  An event whose method buffer holds \<^verbatim>\<open>Foo\<close> and 97 null bytes, with status Unknown and
  a parent span.
\<close>

definition foo_event :: event where
  "foo_event =
     \<lparr>StartTime = 10, EndTime = 20,
      SpanContext = \<lparr>TraceID = replicate 16 1, SpanID = replicate 8 1\<rparr>,
      ParentSpanContext = \<lparr>TraceID = replicate 16 1, SpanID = replicate 8 2\<rparr>,
      Method = [70, 111, 111] @ replicate 97 0,
      StatusCode = 2,
      LocalAddr = \<lparr>IP = replicate 16 0, Port = 8080\<rparr>,
      HasStatus = 1\<rparr>"

text \<open>An event whose method buffer is full: 100 times the letter A, and no parent.\<close>

definition full_event :: event where
  "full_event =
     \<lparr>StartTime = 10, EndTime = 20,
      SpanContext = \<lparr>TraceID = replicate 16 1, SpanID = replicate 8 1\<rparr>,
      ParentSpanContext = \<lparr>TraceID = replicate 16 0, SpanID = replicate 8 0\<rparr>,
      Method = replicate 100 65,
      StatusCode = 0,
      LocalAddr = \<lparr>IP = replicate 16 0, Port = 8080\<rparr>,
      HasStatus = 0\<rparr>"

section \<open>Properties of the event processor\<close>

subsection \<open>Status\<close>

lemma processFn_Status:
  "map Status (processFn x g e) = [processFn_status e StatusCodeUnset]"
  by (simp add: processFn_def emptySpan_def Let_def)

text \<open>
  C4. For every event, if the "has status" flag is non-zero and the status code is one of
  Unknown, DeadlineExceeded, Unimplemented, Internal, Unavailable and DataLoss
  (2, 4, 12, 13, 14, 15), the span that processFn produces has status error; for every
  other code, and whenever the flag is zero, the status stays unset.
\<close>

theorem processFn_status_mapping:
  "map Status (processFn x g e) =
     [if HasStatus e \<noteq> 0 \<and> StatusCode e \<in> {2, 4, 12, 13, 14, 15}
      then StatusCodeError else StatusCodeUnset]"
  by (simp add: processFn_Status processFn_status_def codes_Unknown_def
      codes_DeadlineExceeded_def codes_Unimplemented_def codes_Internal_def
      codes_Unavailable_def codes_DataLoss_def)

theorem processFn_status_mapping_witness:
  "map Status (processFn sample_externs init_globals foo_event) = [StatusCodeError]
   \<and> map Status (processFn sample_externs init_globals full_event) = [StatusCodeUnset]"
  using processFn_status_mapping [of sample_externs init_globals foo_event]
    processFn_status_mapping [of sample_externs init_globals full_event]
  by (simp add: foo_event_def full_event_def)

subsection \<open>The span name\<close>

lemma IndexByte_ge: "- 1 \<le> IndexByte s c"
  by (induction s) (auto simp: Let_def)

lemma IndexByte_none: "IndexByte s c = - 1 \<longleftrightarrow> c \<notin> set s"
proof (induction s)
  case Nil
  show ?case by simp
next
  case (Cons b bs)
  have "IndexByte bs c + 1 \<noteq> - 1"
    using IndexByte_ge [of bs c] by arith
  with Cons show ?case by (auto simp: Let_def)
qed

lemma IndexByte_takeWhile:
  "IndexByte s c \<noteq> - 1 \<Longrightarrow> take (nat (IndexByte s c)) s = takeWhile (\<lambda>b. b \<noteq> c) s"
proof (induction s)
  case Nil
  show ?case by simp
next
  case (Cons b bs)
  show ?case
  proof (cases "b = c")
    case True
    then show ?thesis by simp
  next
    case False
    with Cons.prems have ne: "IndexByte bs c \<noteq> - 1"
      by (auto simp: Let_def split: if_splits)
    then have "0 \<le> IndexByte bs c"
      using IndexByte_ge [of bs c] by arith
    then have "nat (IndexByte bs c + 1) = Suc (nat (IndexByte bs c))"
      by arith
    with False ne Cons.IH show ?thesis by (simp add: Let_def)
  qed
qed

lemma takeWhile_no_null: "c \<notin> set s \<Longrightarrow> takeWhile (\<lambda>b. b \<noteq> c) s = s"
  by (induction s) auto

lemma ByteSliceToString_takeWhile:
  "ByteSliceToString s = string_of_bytes (takeWhile (\<lambda>b. b \<noteq> 0) s)"
proof (cases "IndexByte s 0 = - 1")
  case True
  then have "0 \<notin> set s" by (simp add: IndexByte_none)
  then have "takeWhile (\<lambda>b. b \<noteq> 0) s = s" by (rule takeWhile_no_null)
  with True show ?thesis by (simp only: ByteSliceToString_def Let_def if_False simp_thms)
next
  case False
  then show ?thesis by (simp add: ByteSliceToString_def IndexByte_takeWhile)
qed

lemma processFn_Name: "map Name (processFn x g e) = [ByteSliceToString (Method e)]"
  by (simp add: processFn_def emptySpan_def Let_def)

lemma ByteSliceToString_prefix: "prefix (ByteSliceToString s) (string_of_bytes s)"
proof -
  have "prefix (takeWhile (\<lambda>b. b \<noteq> 0) s) s"
    by (metis prefixI takeWhile_dropWhile_id)
  then show ?thesis
    by (simp add: ByteSliceToString_takeWhile string_of_bytes_def map_mono_prefix)
qed

lemma length_string_of_bytes: "length (string_of_bytes bs) = length bs"
  by (simp add: string_of_bytes_def)

text \<open>
  C7. For every event, whose method buffer holds 100 bytes, the name of the span that
  processFn produces is the buffer cut at its first null byte; the buffer holding Foo and
  97 null bytes gives the name Foo; a buffer with no null byte gives all its 100 bytes;
  and the name is always a leading part of the buffer, at most 100 bytes long, so that
  nothing beyond the buffer enters it.
\<close>

theorem processFn_name_decoding:
  assumes "length (Method e) = 100"
  shows "map Name (processFn x g e) = [string_of_bytes (takeWhile (\<lambda>b. b \<noteq> 0) (Method e))]
    \<and> map Name (processFn x g (e\<lparr>Method := [70, 111, 111] @ replicate 97 0\<rparr>)) = [''Foo'']
    \<and> (0 \<notin> set (Method e) \<longrightarrow>
         map Name (processFn x g e) = [string_of_bytes (Method e)]
         \<and> map length (map Name (processFn x g e)) = [100])
    \<and> list_all (\<lambda>n. prefix n (string_of_bytes (Method e)) \<and> length n \<le> 100)
         (map Name (processFn x g e))"
proof -
  have a: "map Name (processFn x g e) = [string_of_bytes (takeWhile (\<lambda>b. b \<noteq> 0) (Method e))]"
    by (simp add: processFn_Name ByteSliceToString_takeWhile)
  have b: "map Name (processFn x g (e\<lparr>Method := [70, 111, 111] @ replicate 97 0\<rparr>)) = [''Foo'']"
    unfolding processFn_Name
    by (simp add: ByteSliceToString_takeWhile string_of_bytes_def char_of_def bit_Suc_0_iff)
  have c: "map Name (processFn x g e) = [string_of_bytes (Method e)]
      \<and> map length (map Name (processFn x g e)) = [100]" if "0 \<notin> set (Method e)"
    using that assms by (simp add: a takeWhile_no_null length_string_of_bytes)
  have "length (ByteSliceToString (Method e)) \<le> length (string_of_bytes (Method e))"
    using ByteSliceToString_prefix by (rule prefix_length_le)
  then have d: "list_all (\<lambda>n. prefix n (string_of_bytes (Method e)) \<and> length n \<le> 100)
      (map Name (processFn x g e))"
    using assms by (simp add: processFn_Name ByteSliceToString_prefix length_string_of_bytes)
  from a b c d show ?thesis by blast
qed

theorem processFn_name_decoding_witness:
  "length (Method full_event) = 100 \<and> 0 \<notin> set (Method full_event)
   \<and> map Name (processFn sample_externs init_globals full_event) = [replicate 100 (CHR ''A'')]
   \<and> map Name (processFn sample_externs init_globals foo_event) = [''Foo'']"
proof -
  have l: "length (Method full_event) = 100" by (simp add: full_event_def)
  have n: "0 \<notin> set (Method full_event)" by (simp add: full_event_def)
  have l2: "length (Method foo_event) = 100" by (simp add: foo_event_def)
  have s: "string_of_bytes (Method full_event) = replicate 100 (CHR ''A'')"
    by (simp add: full_event_def string_of_bytes_def char_of_def bit_Suc_0_iff)
  have t: "takeWhile (\<lambda>b. b \<noteq> 0) (Method foo_event) = [70, 111, 111]"
    by (simp add: foo_event_def)
  have u: "string_of_bytes [70, 111, 111] = ''Foo''"
    by (simp add: string_of_bytes_def char_of_def bit_Suc_0_iff)
  from processFn_name_decoding [OF l, of sample_externs init_globals] n
  have "map Name (processFn sample_externs init_globals full_event)
      = [string_of_bytes (Method full_event)]"
    by blast
  moreover from processFn_name_decoding [OF l2, of sample_externs init_globals]
  have "map Name (processFn sample_externs init_globals foo_event)
      = [string_of_bytes (takeWhile (\<lambda>b. b \<noteq> 0) (Method foo_event))]"
    by blast
  ultimately show ?thesis using l n by (simp only: s t u simp_thms)
qed

subsection \<open>The parent span\<close>

lemma IsValid_nonzero:
  "length s = 8 \<Longrightarrow> IsValid s = list_ex (\<lambda>b. b \<noteq> 0) s"
proof -
  assume l: "length s = 8"
  have "s = replicate (length s) 0 \<longleftrightarrow> (\<forall>b\<in>set s. b = 0)"
    by (metis in_set_replicate replicate_length_same)
  with l show ?thesis by (auto simp: IsValid_def nilSpanID_def list_ex_iff)
qed

lemma processFn_ParentSpanID:
  "map ParentSpanID (processFn x g e) =
     [if IsValid (SpanID (ParentSpanContext e)) then Some (SpanID (ParentSpanContext e)) else None]"
  by (simp add: processFn_def emptySpan_def Let_def)

text \<open>
  C8. For every event, whose parent span identifier holds 8 bytes, that identifier is valid
  exactly when one of its bytes is not zero, and processFn sets the span's parent span
  identifier to it exactly when it is valid; otherwise no parent is set and the span is
  the root of its trace.
\<close>

theorem processFn_parent:
  assumes "length (SpanID (ParentSpanContext e)) = 8"
  shows "IsValid (SpanID (ParentSpanContext e)) = list_ex (\<lambda>b. b \<noteq> 0) (SpanID (ParentSpanContext e))
    \<and> map ParentSpanID (processFn x g e) =
        [if IsValid (SpanID (ParentSpanContext e))
         then Some (SpanID (ParentSpanContext e)) else None]"
  using assms by (simp add: IsValid_nonzero processFn_ParentSpanID)

theorem processFn_parent_witness:
  "length (SpanID (ParentSpanContext foo_event)) = 8
   \<and> map ParentSpanID (processFn sample_externs init_globals foo_event) = [Some [2, 2, 2, 2, 2, 2, 2, 2]]
   \<and> length (SpanID (ParentSpanContext full_event)) = 8
   \<and> map ParentSpanID (processFn sample_externs init_globals full_event) = [None]"
proof -
  have l: "length (SpanID (ParentSpanContext foo_event)) = 8" by (simp add: foo_event_def)
  have l2: "length (SpanID (ParentSpanContext full_event)) = 8" by (simp add: full_event_def)
  have p: "SpanID (ParentSpanContext foo_event) = [2, 2, 2, 2, 2, 2, 2, 2]"
    by (simp add: foo_event_def numeral_eq_Suc)
  have q: "SpanID (ParentSpanContext full_event) = [0, 0, 0, 0, 0, 0, 0, 0]"
    by (simp add: full_event_def numeral_eq_Suc)
  show ?thesis
    using processFn_parent [OF l, of sample_externs init_globals]
      processFn_parent [OF l2, of sample_externs init_globals] l l2
    by (simp add: p q)
qed

subsection \<open>The attributes\<close>

lemma processFn_Attributes:
  "map Attributes (processFn x g e) = [pdataconv_Attributes [] (processFn_attrs x g e)]"
  by (simp add: processFn_def emptySpan_def Let_def)

lemma attribute_keys:
  "map fst (pdataconv_Attributes [] (processFn_attrs x g e)) =
     [''rpc.system'', ''rpc.service'', ''rpc.grpc.status_code'']
     @ (if serverAddr g then [''server.address'', ''server.port''] else [])"
  by (simp add: pdataconv_Attributes_def processFn_attrs_def Let_def RPCSystemKey_def
      RPCServiceKey_def RPCGRPCStatusCodeKey_def ServerAddressKey_def ServerPortKey_def)

lemma identity_attributes:
  "map_of (pdataconv_Attributes [] (processFn_attrs x g e)) ''rpc.system'' = Some (StringValue ''grpc'')
   \<and> map_of (pdataconv_Attributes [] (processFn_attrs x g e)) ''rpc.service''
       = Some (StringValue (ByteSliceToString (Method e)))
   \<and> map_of (pdataconv_Attributes [] (processFn_attrs x g e)) ''rpc.grpc.status_code''
       = Some (Int64Value (sint (StatusCode e)))"
  by (simp add: pdataconv_Attributes_def processFn_attrs_def Let_def RPCSystemKey_def
      RPCServiceKey_def RPCGRPCStatusCodeKey_def ServerAddressKey_def ServerPortKey_def)

text \<open>
  C9. For every event, processFn returns exactly one span, and its attributes hold
  rpc.system with the value grpc, rpc.service with the decoded method name (the span's
  name), and rpc.grpc.status_code with the event's status code as a number.
\<close>

theorem processFn_one_span_identity_attributes:
  "\<exists>sp. processFn x g e = [sp]
     \<and> map_of (Attributes sp) ''rpc.system'' = Some (StringValue ''grpc'')
     \<and> map_of (Attributes sp) ''rpc.service'' = Some (StringValue (ByteSliceToString (Method e)))
     \<and> Name sp = ByteSliceToString (Method e)
     \<and> map_of (Attributes sp) ''rpc.grpc.status_code'' = Some (Int64Value (sint (StatusCode e)))"
proof -
  obtain sp where sp: "processFn x g e = [sp]"
    by (simp add: processFn_def Let_def)
  from sp processFn_Attributes [of x g e]
  have "Attributes sp = pdataconv_Attributes [] (processFn_attrs x g e)" by simp
  moreover from sp processFn_Name [of x g e]
  have "Name sp = ByteSliceToString (Method e)" by simp
  ultimately show ?thesis using sp identity_attributes [of x g e] by simp
qed

theorem processFn_one_span_identity_attributes_witness:
  "\<exists>sp. processFn sample_externs init_globals foo_event = [sp]
     \<and> map_of (Attributes sp) ''rpc.system'' = Some (StringValue ''grpc'')
     \<and> map_of (Attributes sp) ''rpc.service'' = Some (StringValue ''Foo'')
     \<and> map_of (Attributes sp) ''rpc.grpc.status_code'' = Some (Int64Value 2)"
proof -
  have m: "ByteSliceToString (Method foo_event) = ''Foo''"
    by (simp add: foo_event_def ByteSliceToString_takeWhile string_of_bytes_def char_of_def
        bit_Suc_0_iff)
  have c: "sint (StatusCode foo_event) = 2"
    by (simp add: foo_event_def)
  from processFn_one_span_identity_attributes [of sample_externs init_globals foo_event]
  show ?thesis unfolding m c by blast
qed


end
